theory Spec2Isabelle
  imports Main "HOL-Library.Sublist" "HOL-Library.AList"
begin

section \<open>JavaScript values and the primitives the client uses\<close>

text \<open>
  The client (\<^verbatim>\<open>src/frontend/src/App.js\<close>) is dynamically typed: request bodies,
  responses and component state hold JavaScript values. The counts, offsets and sizes the
  client handles are integers, so numbers are modelled as \<open>int\<close>; \<open>NaN\<close>, infinities and
  fractions do not occur in the modelled paths.
\<close>

datatype jsval =
    Undefined
  | Null
  | JBool bool
  | JNum int
  | JStr string
  | JArr "jsval list"
  | JObj "(string \<times> jsval) list"

text \<open>
  What a \<^verbatim>\<open>catch\<close> block can receive: a \<^verbatim>\<open>TypeError\<close> thrown by the handler itself, a
  request that got no answer, or an answer with an error status, whose payload axios
  keeps in \<^verbatim>\<open>error.response.data\<close>. \<open>InvalidChild\<close> is the error React throws while
  drawing ("Objects are not valid as a React child").
\<close>

datatype js_error = TypeError | NetworkError | HttpError jsval | InvalidChild

type_synonym js_object = "(string \<times> jsval) list"

text \<open>\<^verbatim>\<open>ToBoolean\<close>: what \<^verbatim>\<open>if (v)\<close>, \<^verbatim>\<open>v ? a : b\<close>, \<^verbatim>\<open>!v\<close>, \<^verbatim>\<open>||\<close> and \<^verbatim>\<open>&&\<close> test.\<close>

fun truthy :: "jsval \<Rightarrow> bool" where
  "truthy Undefined = False"
| "truthy Null = False"
| "truthy (JBool b) = b"
| "truthy (JNum n) = (n \<noteq> 0)"
| "truthy (JStr s) = (s \<noteq> [])"
| "truthy (JArr xs) = True"
| "truthy (JObj fs) = True"

definition js_or :: "jsval \<Rightarrow> jsval \<Rightarrow> jsval" where
  "js_or a b = (if truthy a then a else b)"

text \<open>
  \<^verbatim>\<open>a === b\<close>. Objects and arrays are equal only to themselves (by reference); the file
  compares against literals only, where the answer for an object or an array is false.
\<close>

fun strict_eq :: "jsval \<Rightarrow> jsval \<Rightarrow> bool" where
  "strict_eq Undefined Undefined = True"
| "strict_eq Null Null = True"
| "strict_eq (JBool a) (JBool b) = (a = b)"
| "strict_eq (JNum a) (JNum b) = (a = b)"
| "strict_eq (JStr a) (JStr b) = (a = b)"
| "strict_eq _ _ = False"

text \<open>Reading a property of an object: \<^verbatim>\<open>undefined\<close> when the object has no such key.\<close>

definition js_get :: "js_object \<Rightarrow> string \<Rightarrow> jsval" where
  "js_get obj k = (case map_of obj k of None \<Rightarrow> Undefined | Some v \<Rightarrow> v)"

text \<open>
  \<^verbatim>\<open>v.k\<close> on any value: a \<^verbatim>\<open>TypeError\<close> on \<^verbatim>\<open>null\<close> and \<^verbatim>\<open>undefined\<close>. The keys
  read in this file are field names of the backend's payloads, which numbers, booleans,
  strings and arrays do not have.
\<close>

fun get_prop :: "jsval \<Rightarrow> string \<Rightarrow> js_error + jsval" where
  "get_prop Undefined k = Inl TypeError"
| "get_prop Null k = Inl TypeError"
| "get_prop (JObj fs) k = Inr (js_get fs k)"
| "get_prop _ k = Inr Undefined"

subsection \<open>Decimal rendering: \<^verbatim>\<open>Number.prototype.toString\<close> on integers\<close>

definition digit_char :: "nat \<Rightarrow> char" where
  "digit_char d = ''0123456789'' ! (d mod 10)"

fun show_nat :: "nat \<Rightarrow> string" where
  "show_nat n = (if n < 10 then [digit_char n] else show_nat (n div 10) @ [digit_char (n mod 10)])"

declare show_nat.simps [simp del]

definition show_int :: "int \<Rightarrow> string" where
  "show_int i = (if i < 0 then CHR ''-'' # show_nat (nat (- i)) else show_nat (nat i))"

subsection \<open>\<^verbatim>\<open>formatFileSize\<close> (App.js, lines 897-901)\<close>

text \<open>
  \<^verbatim>\<open>
  const formatFileSize = (bytes) => {
    if (bytes < 1024) return bytes + " B";
    if (bytes < 1024 * 1024) return (bytes / 1024).toFixed(1) + " KB";
    return (bytes / (1024 * 1024)).toFixed(1) + " MB";
  };
  \<close>
  \<open>bytes\<close> is a file size: a non-negative integer. The divisors are powers of two, so for
  every integer below \<open>2^53\<close> the quotient is exact in double arithmetic and
  \<^verbatim>\<open>toFixed(1)\<close> is what ECMAScript specifies on the exact quotient \<open>x\<close>: the integer
  \<open>n\<close> with \<open>n / 10\<close> closest to \<open>x\<close>, the larger one on a tie, printed with its last
  digit after the point. For \<open>x = num / den\<close> that integer is
  \<open>(20 * num + den) div (2 * den)\<close>.
\<close>

definition toFixed1 :: "nat \<Rightarrow> nat \<Rightarrow> string" where
  "toFixed1 num den =
     (let n = (20 * num + den) div (2 * den)
      in show_nat (n div 10) @ ''.'' @ [digit_char (n mod 10)])"

definition formatFileSize :: "nat \<Rightarrow> string" where
  "formatFileSize bytes =
     (if bytes < 1024 then show_nat bytes @ '' B''
      else if bytes < 1024 * 1024 then toFixed1 bytes 1024 @ '' KB''
      else toFixed1 bytes (1024 * 1024) @ '' MB'')"

subsection \<open>Requests and notifications\<close>

text \<open>
  A call \<^verbatim>\<open>axios.get/post/put/delete(`${API}/...`, body)\<close> is a request value; \<open>path\<close>
  is relative to \<^verbatim>\<open>API\<close>, \<open>query\<close> holds the \<^verbatim>\<open>URLSearchParams\<close> entries in the order
  they were appended, and \<open>body\<close> is \<^verbatim>\<open>undefined\<close> for a call without one. A handler
  takes the answer of the server as an argument: \<open>Inl\<close> when the promise rejects.
\<close>

datatype http_method = GET | POST | PUT | DELETE

record request =
  verb :: http_method
  path :: string
  query :: "(string \<times> string) list"
  body :: jsval

datatype toast = ToastSuccess jsval | ToastError jsval

section \<open>The article list: \<^verbatim>\<open>Articles\<close> (App.js, lines 236-425)\<close>

text \<open>
  The component state, one field per \<^verbatim>\<open>useState\<close>. \<open>page\<close> and \<open>total\<close> are
  JavaScript numbers, so they are integers here and nothing in the type keeps them from
  being negative. The field \<^verbatim>\<open>total\<close> is named \<open>total_st\<close>.
\<close>

record articles_state =
  articles :: "js_object list"
  loading :: bool
  search :: string
  category :: string
  categories :: "string list"
  page :: int
  total_st :: int

definition articles_init :: articles_state where
  "articles_init =
     \<lparr>articles = [], loading = True, search = [], category = [], categories = [],
      page = 0, total_st = 0\<rparr>"

definition limit :: int where
  "limit = 20"

text \<open>The payload of \<^verbatim>\<open>GET /articles\<close>: \<^verbatim>\<open>{articles: [...], total}\<close>.\<close>

record articles_response =
  resp_articles :: "js_object list"
  resp_total :: int

text \<open>
  \<^verbatim>\<open>
  const params = new URLSearchParams({
    limit: limit.toString(),
    offset: (page * limit).toString(),
  });
  if (search) params.append("search", search);
  if (category) params.append("category", category);
  const response = await axios.get(`${API}/articles?${params}`);
  \<close>
\<close>

definition fetchArticles_params :: "articles_state \<Rightarrow> (string \<times> string) list" where
  "fetchArticles_params st =
     [(''limit'', show_int limit), (''offset'', show_int (page st * limit))]
     @ (if search st \<noteq> [] then [(''search'', search st)] else [])
     @ (if category st \<noteq> [] then [(''category'', category st)] else [])"

definition fetchArticles_request :: "articles_state \<Rightarrow> request" where
  "fetchArticles_request st =
     \<lparr>verb = GET, path = ''/articles'', query = fetchArticles_params st, body = Undefined\<rparr>"

text \<open>
  \<^verbatim>\<open>fetchArticles\<close>: the request is sent from the state the callback closed over, and
  the answer is written into the state; a rejected request leaves the list and the total
  as they were and raises an error toast.
\<close>

definition fetchArticles ::
  "(request \<Rightarrow> js_error + articles_response) \<Rightarrow> articles_state \<Rightarrow> articles_state \<times> toast list" where
  "fetchArticles axios_get st =
     (case axios_get (fetchArticles_request st) of
        Inr response \<Rightarrow>
          (st\<lparr>articles := resp_articles response, total_st := resp_total response,
              loading := False\<rparr>, [])
      | Inl e \<Rightarrow> (st\<lparr>loading := False\<rparr>, [ToastError (JStr ''Failed to fetch articles'')]))"

text \<open>
  The handlers of the search box, the category selector and the two pagination buttons
  (lines 309-312, 319-322, 404, 415), and the arrival of an answer to \<^verbatim>\<open>fetchCategories\<close>
  or to \<^verbatim>\<open>fetchArticles\<close>. A click handler is modelled as it is written, whether or not
  its button is disabled.
\<close>

datatype articles_event =
    CategoriesFetched "js_error + string list"
  | SearchChange string
  | CategoryChange string
  | PrevClick
  | NextClick
  | Fetch "js_error + articles_response"

fun articles_step :: "articles_state \<Rightarrow> articles_event \<Rightarrow> articles_state" where
  "articles_step st (CategoriesFetched answer) =
     (case answer of Inr cats \<Rightarrow> st\<lparr>categories := cats\<rparr> | Inl e \<Rightarrow> st)"
| "articles_step st (SearchChange v) = st\<lparr>search := v, page := 0\<rparr>"
| "articles_step st (CategoryChange val) =
     st\<lparr>category := (if val = ''all'' then [] else val), page := 0\<rparr>"
| "articles_step st PrevClick = st\<lparr>page := max 0 (page st - 1)\<rparr>"
| "articles_step st NextClick = st\<lparr>page := page st + 1\<rparr>"
| "articles_step st (Fetch answer) = fst (fetchArticles (\<lambda>r. answer) st)"

text \<open>
  What the component draws, without the style classes and the formatted date. One card
  per article (lines 355-397); the badge is
  \<^verbatim>\<open>article.exported === 1 && <Badge ...>Exported</Badge>\<close>.
\<close>

record article_card =
  card_key :: jsval
  card_href :: jsval
  card_title :: jsval
  card_exported_badge :: bool
  card_description :: jsval
  card_source :: jsval
  card_category :: jsval

definition article_item :: "js_object \<Rightarrow> article_card" where
  "article_item article =
     \<lparr>card_key = js_get article ''id'',
      card_href = js_get article ''url'',
      card_title = js_get article ''title'',
      card_exported_badge = strict_eq (js_get article ''exported'') (JNum 1),
      card_description = js_get article ''description'',
      card_source = js_or (js_get article ''source_name'') (JStr ''Unknown Source''),
      card_category = js_get article ''category''\<rparr>"

text \<open>
  The pagination bar (lines 400-420):
  \<^verbatim>\<open>Page {page + 1} of {Math.ceil(total / limit) || 1}\<close>. \<^verbatim>\<open>Math.ceil\<close> of the
  quotient is \<open>- ((- total) div limit)\<close> on integers, and \<^verbatim>\<open>|| 1\<close> replaces a zero.
\<close>

definition page_count :: "int \<Rightarrow> int" where
  "page_count t = (let c = - ((- t) div limit) in if c \<noteq> 0 then c else 1)"

record pagination =
  prev_disabled :: bool
  page_shown :: int
  pages_shown :: int
  next_disabled :: bool

datatype articles_view =
    LoadingOverlay
  | EmptyState
  | ArticlesList "article_card list" pagination

definition Articles :: "articles_state \<Rightarrow> articles_view" where
  "Articles st =
     (if loading st then LoadingOverlay
      else if length (articles st) = 0 then EmptyState
      else ArticlesList (map article_item (articles st))
             \<lparr>prev_disabled = (page st = 0),
              page_shown = page st + 1,
              pages_shown = page_count (total_st st),
              next_disabled = ((page st + 1) * limit \<ge> total_st st)\<rparr>)"

section \<open>Strings from values, error details, selectors\<close>

text \<open>\<^verbatim>\<open>ToString\<close>, as a template literal \<^verbatim>\<open>`${v}`\<close> applies it.\<close>

fun join_comma :: "string list \<Rightarrow> string" where
  "join_comma [] = []"
| "join_comma [x] = x"
| "join_comma (x # y # ys) = x @ '','' @ join_comma (y # ys)"

fun js_to_string :: "jsval \<Rightarrow> string" where
  "js_to_string Undefined = ''undefined''"
| "js_to_string Null = ''null''"
| "js_to_string (JBool b) = (if b then ''true'' else ''false'')"
| "js_to_string (JNum n) = show_int n"
| "js_to_string (JStr s) = s"
| "js_to_string (JArr xs) =
     join_comma (map (\<lambda>v. if v = Undefined \<or> v = Null then [] else js_to_string v) xs)"
| "js_to_string (JObj fs) = ''[object Object]''"

text \<open>\<^verbatim>\<open>error.response?.data?.detail\<close> inside a \<^verbatim>\<open>catch\<close> block.\<close>

definition error_detail :: "js_error \<Rightarrow> jsval" where
  "error_detail e =
     (case e of
        HttpError d \<Rightarrow> (case get_prop d ''detail'' of Inr v \<Rightarrow> v | Inl _ \<Rightarrow> Undefined)
      | _ \<Rightarrow> Undefined)"

text \<open>
  The \<^verbatim>\<open>Select\<close> component comes from \<^verbatim>\<open>@/components/ui/select\<close>. It calls
  \<^verbatim>\<open>onValueChange\<close> with the \<^verbatim>\<open>value\<close> of one of the \<^verbatim>\<open>SelectItem\<close>s it was given and
  with nothing else, so a selection of a value that is not among the items changes
  nothing.
\<close>

definition select_fire :: "string list \<Rightarrow> (string \<Rightarrow> 's \<Rightarrow> 's) \<Rightarrow> string \<Rightarrow> 's \<Rightarrow> 's" where
  "select_fire items onValueChange val st = (if val \<in> set items then onValueChange val st else st)"

section \<open>The source form: \<^verbatim>\<open>Sources\<close> (App.js, lines 428-666)\<close>

record sources_state =
  sources :: "js_object list"
  showModal :: bool
  editingSource :: "js_object option"
  formData :: js_object

definition formData_empty :: js_object where
  "formData_empty =
     [(''name'', JStr []), (''type'', JStr ''rss''), (''url'', JStr []), (''enabled'', JBool True)]"

definition sources_init :: sources_state where
  "sources_init =
     \<lparr>sources = [], showModal = False, editingSource = None, formData = formData_empty\<rparr>"

text \<open>The values of the type selector of the dialog (lines 629-631).\<close>

definition source_type_items :: "string list" where
  "source_type_items = [''rss'', ''reddit'', ''scraper'']"

text \<open>
  \<^verbatim>\<open>
  if (editingSource) {
    await axios.put(`${API}/sources/${editingSource.id}`, formData);
    toast.success("Source updated");
  } else {
    await axios.post(`${API}/sources`, formData);
    toast.success("Source created");
  }
  setShowModal(false); setEditingSource(null);
  setFormData({ name: "", type: "rss", url: "", enabled: true });
  fetchSources();
  \<close>
  \<open>editingSource\<close> is \<^verbatim>\<open>null\<close> or a source object, and an object is truthy.
\<close>

definition handleSubmit_request :: "sources_state \<Rightarrow> request" where
  "handleSubmit_request st =
     (case editingSource st of
        Some source \<Rightarrow>
          \<lparr>verb = PUT, path = ''/sources/'' @ js_to_string (js_get source ''id''),
           query = [], body = JObj (formData st)\<rparr>
      | None \<Rightarrow>
          \<lparr>verb = POST, path = ''/sources'', query = [], body = JObj (formData st)\<rparr>)"

definition handleSubmit ::
  "(request \<Rightarrow> js_error + jsval) \<Rightarrow> sources_state \<Rightarrow> sources_state \<times> toast list" where
  "handleSubmit axios st =
     (case axios (handleSubmit_request st) of
        Inr response \<Rightarrow>
          (st\<lparr>showModal := False, editingSource := None, formData := formData_empty\<rparr>,
           [ToastSuccess (JStr (if editingSource st \<noteq> None then ''Source updated''
                                else ''Source created''))])
      | Inl e \<Rightarrow> (st, [ToastError (JStr ''Failed to save source'')]))"

text \<open>
  \<^verbatim>\<open>
  const handleToggle = async (source) => {
    try {
      await axios.put(`${API}/sources/${source.id}`, { enabled: !source.enabled });
      fetchSources();
    } catch (error) { toast.error("Failed to update source"); }
  };
  \<close>
  No control of the page calls this handler.
\<close>

definition handleToggle_request :: "js_object \<Rightarrow> request" where
  "handleToggle_request source =
     \<lparr>verb = PUT, path = ''/sources/'' @ js_to_string (js_get source ''id''), query = [],
      body = JObj [(''enabled'', JBool (\<not> truthy (js_get source ''enabled'')))]\<rparr>"

text \<open>
  The controls of the page: "Add Source" (lines 525-529), the edit button of a source
  card (lines 575-584), the four inputs of the dialog (lines 615, 623, 640, 647-649;
  \<^verbatim>\<open>{ ...formData, k: v }\<close> replaces the value of a key the object has and appends a
  new key otherwise), "Cancel" and the save button.
\<close>

datatype sources_event =
    AddClick
  | EditClick js_object
  | NameChange string
  | TypeChange string
  | UrlChange string
  | EnabledChange bool
  | CancelClick
  | SaveClick "js_error + jsval"

fun sources_step :: "sources_state \<Rightarrow> sources_event \<Rightarrow> sources_state" where
  "sources_step st AddClick =
     st\<lparr>editingSource := None, formData := formData_empty, showModal := True\<rparr>"
| "sources_step st (EditClick source) =
     st\<lparr>editingSource := Some source,
        formData := [(''name'', js_get source ''name''), (''type'', js_get source ''type''),
                     (''url'', js_get source ''url''), (''enabled'', js_get source ''enabled'')],
        showModal := True\<rparr>"
| "sources_step st (NameChange v) =
     st\<lparr>formData := AList.update ''name'' (JStr v) (formData st)\<rparr>"
| "sources_step st (TypeChange val) =
     select_fire source_type_items
       (\<lambda>val st. st\<lparr>formData := AList.update ''type'' (JStr val) (formData st)\<rparr>) val st"
| "sources_step st (UrlChange v) =
     st\<lparr>formData := AList.update ''url'' (JStr v) (formData st)\<rparr>"
| "sources_step st (EnabledChange checked) =
     st\<lparr>formData := AList.update ''enabled'' (JBool checked) (formData st)\<rparr>"
| "sources_step st CancelClick = st\<lparr>showModal := False\<rparr>"
| "sources_step st (SaveClick answer) = fst (handleSubmit (\<lambda>r. answer) st)"

text \<open>
  The full source shape of the interface: an object with exactly the keys \<open>name\<close>,
  \<open>type\<close>, \<open>url\<close> and \<open>enabled\<close>, each with a value (a key whose value is
  \<^verbatim>\<open>undefined\<close> is not sent), whose \<open>type\<close> is one of \<open>rss\<close>, \<open>reddit\<close>, \<open>scraper\<close>.
\<close>

definition source_type_ok :: "jsval \<Rightarrow> bool" where
  "source_type_ok v = (v = JStr ''rss'' \<or> v = JStr ''reddit'' \<or> v = JStr ''scraper'')"

definition full_source_shape :: "jsval \<Rightarrow> bool" where
  "full_source_shape b =
     (case b of
        JObj fs \<Rightarrow>
          distinct (map fst fs) \<and>
          set (map fst fs) = {''name'', ''type'', ''url'', ''enabled''} \<and>
          js_get fs ''name'' \<noteq> Undefined \<and>
          source_type_ok (js_get fs ''type'') \<and>
          js_get fs ''url'' \<noteq> Undefined \<and>
          js_get fs ''enabled'' \<noteq> Undefined
      | _ \<Rightarrow> False)"

text \<open>
  A stored source, as \<^verbatim>\<open>GET /sources\<close> lists it, that has the four fields itself, with
  a type of the closed set.
\<close>

definition stored_source_ok :: "js_object \<Rightarrow> bool" where
  "stored_source_ok source \<longleftrightarrow>
     js_get source ''name'' \<noteq> Undefined \<and>
     source_type_ok (js_get source ''type'') \<and>
     js_get source ''url'' \<noteq> Undefined \<and>
     js_get source ''enabled'' \<noteq> Undefined"

text \<open>The sources a sequence of events opens in the edit dialog.\<close>

fun edited :: "sources_event list \<Rightarrow> js_object list" where
  "edited [] = []"
| "edited (EditClick source # evs) = source # edited evs"
| "edited (ev # evs) = edited evs"

text \<open>What the form data satisfy in every state of the page.\<close>

definition form_keys :: "sources_state \<Rightarrow> bool" where
  "form_keys st \<longleftrightarrow> map fst (formData st) = [''name'', ''type'', ''url'', ''enabled'']"

definition form_inv :: "sources_state \<Rightarrow> bool" where
  "form_inv st \<longleftrightarrow> form_keys st \<and> stored_source_ok (formData st)"

section \<open>Summaries: \<^verbatim>\<open>Summaries\<close> (App.js, lines 669-818)\<close>

record summaries_state =
  generating :: bool
  outputFormat :: string
  selectedCategory :: string
  summary_categories :: "string list"

definition summaries_init :: summaries_state where
  "summaries_init =
     \<lparr>generating = False, outputFormat = ''markdown'', selectedCategory = [],
      summary_categories = []\<rparr>"

text \<open>
  \<^verbatim>\<open>
  const response = await axios.post(`${API}/summarize`, {
    output_format: outputFormat,
    category: selectedCategory || null,
    limit: 20,
  });
  \<close>
\<close>

definition generateSummary_request :: "summaries_state \<Rightarrow> request" where
  "generateSummary_request st =
     \<lparr>verb = POST, path = ''/summarize'', query = [],
      body = JObj [(''output_format'', JStr (outputFormat st)),
                   (''category'', js_or (JStr (selectedCategory st)) Null),
                   (''limit'', JNum 20)]\<rparr>"

definition generateSummary ::
  "(request \<Rightarrow> js_error + jsval) \<Rightarrow> summaries_state \<Rightarrow> summaries_state \<times> toast list" where
  "generateSummary axios st =
     (case axios (generateSummary_request st) of
        Inr response \<Rightarrow> (st\<lparr>generating := False\<rparr>, [ToastSuccess (JStr ''Summary generated!'')])
      | Inl e \<Rightarrow>
          (st\<lparr>generating := False\<rparr>,
           [ToastError (js_or (error_detail e) (JStr ''Failed to generate summary''))]))"

text \<open>
  The category selector (lines 732-747) offers \<^verbatim>\<open>"all"\<close>, labelled "All Categories",
  and the fetched categories, and its \<^verbatim>\<open>onValueChange\<close> is \<^verbatim>\<open>setSelectedCategory\<close>
  itself; the format selector (lines 751-759) offers \<^verbatim>\<open>"markdown"\<close> and \<^verbatim>\<open>"json"\<close>.
\<close>

datatype summaries_event =
    SummaryCategoriesFetched "js_error + string list"
  | SelectCategory string
  | SelectFormat string
  | GenerateClick "js_error + jsval"

fun summaries_step :: "summaries_state \<Rightarrow> summaries_event \<Rightarrow> summaries_state" where
  "summaries_step st (SummaryCategoriesFetched answer) =
     (case answer of Inr cats \<Rightarrow> st\<lparr>summary_categories := cats\<rparr> | Inl e \<Rightarrow> st)"
| "summaries_step st (SelectCategory val) =
     select_fire (''all'' # summary_categories st)
       (\<lambda>val st. st\<lparr>selectedCategory := val\<rparr>) val st"
| "summaries_step st (SelectFormat val) =
     select_fire [''markdown'', ''json''] (\<lambda>val st. st\<lparr>outputFormat := val\<rparr>) val st"
| "summaries_step st (GenerateClick answer) = fst (generateSummary (\<lambda>r. answer) st)"

section \<open>Exports: \<^verbatim>\<open>Exports\<close> (App.js, lines 821-1073)\<close>








section \<open>The dashboard: \<^verbatim>\<open>Dashboard\<close> (App.js, lines 103-233)\<close>











section \<open>The persistence core behind the interface\<close>

text \<open>
  App.js is the client only. The article store, the ingestion step and the export
  pipeline it talks to are described in sections 3, 4.2, 4.4 and 4.5 of the
  specification; the definitions of this section follow those sections.
\<close>

text \<open>
  Modelled from the spec: the Article of section 3 (the backend's article row is not in
  App.js): a stable unique id, title, description, canonical url, source reference,
  optional published timestamp, optional category, the \<open>exported\<close> flag and a creation
  timestamp.
\<close>

record article =
  article_id :: nat
  title :: string
  description :: string
  url :: string
  source_ref :: nat
  published_date :: "string option"
  assigned_category :: "string option"
  exported :: bool
  created_at :: nat

text \<open>
  Modelled from the spec: the normalized article of the glossary (the Fetch Engine is
  not in App.js), a source item reduced to title, description, url and published date.
\<close>

record normalized_item =
  item_title :: string
  item_description :: string
  item_url :: string
  item_published :: "string option"

text \<open>
  Modelled from the spec: the three export formats of section 4.5 (the Export Pipeline
  is not in App.js): interchange text, one record per line, and the url list.
\<close>

datatype export_type = Notebooklm | Jsonl | Urls

text \<open>
  Modelled from the spec: the history entry of a completed export in section 3 (absent
  from App.js): type, article count and timestamp.
\<close>

record export_record =
  record_type :: export_type
  record_count :: nat
  record_time :: nat

text \<open>
  Modelled from the spec: the persisted state the components of section 2 share (the
  backend is not in App.js): the article rows in insertion order, the next free id, the
  export history and the export files by name.
\<close>

record backend =
  rows :: "article list"
  next_id :: nat
  history :: "export_record list"
  files :: "(string \<times> string) list"


text \<open>
  Modelled from the spec: the result of \<open>ingest\<close> in section 4.2,
  \<open>{created: bool, article_id}\<close>.
\<close>

record ingest_result =
  created :: bool
  result_id :: nat

text \<open>
  Modelled from the spec: \<open>ingest(normalized_item, source_id)\<close> of section 4.2, absent
  from App.js. The dedup key is the url, compared exactly. If the url already exists the
  call is a no-op returning \<open>created = false\<close> and the existing id; otherwise a new row
  is created with \<open>category = null\<close> and \<open>exported = false\<close>.
\<close>

definition ingest :: "normalized_item \<Rightarrow> nat \<Rightarrow> nat \<Rightarrow> backend \<Rightarrow> ingest_result \<times> backend" where
  "ingest item source_id now b =
     (case find (\<lambda>a. url a = item_url item) (rows b) of
        Some a \<Rightarrow> (\<lparr>created = False, result_id = article_id a\<rparr>, b)
      | None \<Rightarrow>
          (\<lparr>created = True, result_id = next_id b\<rparr>,
           b\<lparr>rows := rows b @
                 [\<lparr>article_id = next_id b, title = item_title item,
                   description = item_description item, url = item_url item,
                   source_ref = source_id, published_date = item_published item,
                   assigned_category = None, exported = False, created_at = now\<rparr>],
              next_id := next_id b + 1\<rparr>))"


text \<open>
  Modelled from the spec: the invariant of section 3 on the article store, absent from
  App.js: the url is unique within the store. Ids are unique and below the next free id.
\<close>

definition store_ok :: "backend \<Rightarrow> bool" where
  "store_ok b \<longleftrightarrow>
     distinct (map url (rows b)) \<and> distinct (map article_id (rows b)) \<and>
     list_all (\<lambda>a. article_id a < next_id b) (rows b)"

text \<open>
  Modelled from the spec: the Categorization step of section 4.4, absent from App.js.
  Each article with \<open>category = null\<close> gets the label the classifier chooses; on a
  classifier failure the category stays null; a categorized article is left alone.
\<close>

definition categorize :: "(article \<Rightarrow> string option) \<Rightarrow> backend \<Rightarrow> backend" where
  "categorize classify b =
     b\<lparr>rows := map (\<lambda>a. if assigned_category a = None
                           then a\<lparr>assigned_category := classify a\<rparr> else a) (rows b)\<rparr>"

text \<open>
  Modelled from the spec: the selection of section 4.5, absent from App.js: up to
  \<open>limit\<close> articles ordered by recency, filtered to \<open>exported = false\<close> when
  \<open>unexported_only\<close> is set.
\<close>

definition select_articles :: "bool \<Rightarrow> nat \<Rightarrow> article list \<Rightarrow> article list" where
  "select_articles unexported_only n as =
     take n (filter (\<lambda>a. \<not> unexported_only \<or> \<not> exported a) (rev (sort_key created_at as)))"

text \<open>
  Modelled from the spec: the generated file name of section 4.5, absent from App.js,
  embedding type and timestamp.
\<close>

definition export_filename :: "export_type \<Rightarrow> nat \<Rightarrow> string" where
  "export_filename ty now =
     (case ty of Notebooklm \<Rightarrow> ''notebooklm_'' | Jsonl \<Rightarrow> ''jsonl_'' | Urls \<Rightarrow> ''urls_'')
     @ show_nat now
     @ (case ty of Notebooklm \<Rightarrow> ''.txt'' | Jsonl \<Rightarrow> ''.jsonl'' | Urls \<Rightarrow> ''.txt'')"

text \<open>
  Modelled from the spec: the marking step of section 4.5, absent from App.js: the
  \<open>exported\<close> flag is set on every selected article.
\<close>

definition mark_exported_rows :: "nat list \<Rightarrow> article list \<Rightarrow> article list" where
  "mark_exported_rows ids as = map (\<lambda>a. if article_id a \<in> set ids then a\<lparr>exported := True\<rparr> else a) as"

text \<open>
  Modelled from the spec: the two failures of an export in section 4.5 (absent from
  App.js): an empty selection, and a write step that fails.
\<close>

datatype export_error = NothingToExport | WriteFailed

text \<open>
  Modelled from the spec: the result of an export in section 4.5 (absent from App.js),
  \<open>{articles_count, filename}\<close>.
\<close>

record export_result =
  articles_count :: nat
  filename :: string

text \<open>
  Modelled from the spec: \<open>export(export_type, unexported_only, mark_exported, limit)\<close>
  of section 4.5, absent from App.js. It fails with "nothing to export" on an empty
  selection; it renders the selection (the three formats are the parameter \<open>render\<close>),
  writes the output as a new file (\<open>write_file\<close> tells whether the write step succeeds); on
  \<open>mark_exported = true\<close> it flips the flag on every selected article, all or nothing:
  if the write step fails no article is marked; and it appends one entry to the export
  history. The state after a failed call is the state before it.
\<close>

definition export ::
  "(string \<Rightarrow> string \<Rightarrow> bool) \<Rightarrow> (export_type \<Rightarrow> article list \<Rightarrow> string) \<Rightarrow> nat \<Rightarrow>
     export_type \<Rightarrow> bool \<Rightarrow> bool \<Rightarrow> nat \<Rightarrow> backend \<Rightarrow> (export_error + export_result) \<times> backend" where
  "export write_file render now ty unexported_only mark_exported n b =
     (let selection = select_articles unexported_only n (rows b) in
      if selection = [] then (Inl NothingToExport, b)
      else if \<not> write_file (export_filename ty now) (render ty selection) then (Inl WriteFailed, b)
      else
        (Inr \<lparr>articles_count = length selection, filename = export_filename ty now\<rparr>,
         b\<lparr>rows := (if mark_exported then mark_exported_rows (map article_id selection) (rows b)
                     else rows b),
            history := history b @
              [\<lparr>record_type = ty, record_count = length selection, record_time = now\<rparr>],
            files := files b @ [(export_filename ty now, render ty selection)]\<rparr>))"

text \<open>
  Modelled from the spec: the operations of sections 4.2, 4.4 and 4.5 that write the
  article store, absent from App.js, as the steps of the backend.
\<close>

datatype backend_op =
    OpIngest normalized_item nat nat
  | OpCategorize "article \<Rightarrow> string option"
  | OpExport "string \<Rightarrow> string \<Rightarrow> bool" "export_type \<Rightarrow> article list \<Rightarrow> string" nat
      export_type bool bool nat

text \<open>
  Modelled from the spec: the state after one of these operations (absent from App.js).
\<close>

fun backend_step :: "backend \<Rightarrow> backend_op \<Rightarrow> backend" where
  "backend_step b (OpIngest item source_id now) = snd (ingest item source_id now b)"
| "backend_step b (OpCategorize classify) = categorize classify b"
| "backend_step b (OpExport write_file render now ty unexported_only mark_exported n) =
     snd (export write_file render now ty unexported_only mark_exported n b)"


section \<open>Properties\<close>

subsection \<open>File sizes\<close>

lemma suffix_B_KB: "\<not> suffix '' B'' (xs @ '' KB'')"
  by (simp add: suffix_to_prefix)

lemma suffix_B_MB: "\<not> suffix '' B'' (xs @ '' MB'')"
  by (simp add: suffix_to_prefix)

lemma suffix_KB_B: "\<not> suffix '' KB'' (xs @ '' B'')"
  by (simp add: suffix_to_prefix)

lemma suffix_KB_MB: "\<not> suffix '' KB'' (xs @ '' MB'')"
  by (simp add: suffix_to_prefix)

lemma suffix_MB_B: "\<not> suffix '' MB'' (xs @ '' B'')"
  by (simp add: suffix_to_prefix)

lemma suffix_MB_KB: "\<not> suffix '' MB'' (xs @ '' KB'')"
  by (simp add: suffix_to_prefix)

lemmas unit_suffixes =
  suffix_B_KB suffix_B_MB suffix_KB_B suffix_KB_MB suffix_MB_B suffix_MB_KB

text \<open>
  C10. \<open>formatFileSize\<close> partitions the non-negative byte counts by unit: the result is
  the raw count followed by \<open>" B"\<close> exactly when \<open>bytes < 1024\<close>, a one-decimal value
  followed by \<open>" KB"\<close> exactly when \<open>1024 \<le> bytes < 1048576\<close>, and a one-decimal value
  followed by \<open>" MB"\<close> otherwise.
\<close>

theorem formatFileSize_partition:
  "(suffix '' B'' (formatFileSize b) \<longleftrightarrow> b < 1024) \<and>
   (suffix '' KB'' (formatFileSize b) \<longleftrightarrow> 1024 \<le> b \<and> b < 1048576) \<and>
   (suffix '' MB'' (formatFileSize b) \<longleftrightarrow> 1048576 \<le> b) \<and>
   formatFileSize b =
     (if b < 1024 then show_nat b @ '' B''
      else if b < 1048576 then toFixed1 b 1024 @ '' KB''
      else toFixed1 b 1048576 @ '' MB'')"
  by (simp add: formatFileSize_def unit_suffixes suffix_def)

theorem formatFileSize_partition_witness:
  "formatFileSize 1023 = ''1023 B'' \<and> formatFileSize 1024 = ''1.0 KB'' \<and>
   formatFileSize 1536 = ''1.5 KB'' \<and> formatFileSize 1048575 = ''1024.0 KB'' \<and>
   formatFileSize 1048576 = ''1.0 MB'' \<and>
   suffix '' KB'' (formatFileSize 1536) \<and> \<not> suffix '' B'' (formatFileSize 1536) \<and>
   \<not> suffix '' MB'' (formatFileSize 1536)"
proof -
  have v: "formatFileSize 1023 = ''1023 B''" "formatFileSize 1024 = ''1.0 KB''"
    "formatFileSize 1536 = ''1.5 KB''" "formatFileSize 1048575 = ''1024.0 KB''"
    "formatFileSize 1048576 = ''1.0 MB''"
    by (simp_all add: formatFileSize_def toFixed1_def show_nat.simps digit_char_def)
  from formatFileSize_partition [of 1536] v show ?thesis
    by simp
qed

subsection \<open>The article list\<close>


lemma strict_eq_one: "strict_eq v (JNum 1) \<longleftrightarrow> v = JNum 1"
  by (cases v) auto



lemma articles_step_page_nonneg: "0 \<le> page st \<Longrightarrow> 0 \<le> page (articles_step st ev)"
  by (cases ev) (auto simp: fetchArticles_def split: sum.splits)

lemma foldl_articles_step_page_nonneg:
  "0 \<le> page st \<Longrightarrow> 0 \<le> page (foldl articles_step st evs)"
  by (induction evs arbitrary: st) (simp_all add: articles_step_page_nonneg)



text \<open>
  C9. The page index of the article list is never negative: it starts at 0 and stays
  non-negative under every sequence of edits, clicks and answers; every change of the
  search text or of the category filter resets it to 0; and where the pagination bar is
  drawn, the previous-page button is disabled exactly when \<open>page = 0\<close> and the next-page
  button exactly when \<open>(page + 1) * 20 \<ge> total\<close>.
\<close>

theorem page_index_invariant:
  "page articles_init = 0 \<and>
   0 \<le> page (foldl articles_step articles_init evs) \<and>
   page (articles_step st (SearchChange v)) = 0 \<and>
   page (articles_step st (CategoryChange c)) = 0 \<and>
   (Articles st = ArticlesList cards bar \<longrightarrow>
      (prev_disabled bar \<longleftrightarrow> page st = 0) \<and>
      (next_disabled bar \<longleftrightarrow> (page st + 1) * 20 \<ge> total_st st))"
proof -
  have "0 \<le> page (foldl articles_step articles_init evs)"
    by (rule foldl_articles_step_page_nonneg) (simp add: articles_init_def)
  moreover have "Articles st = ArticlesList cards bar \<longrightarrow>
      (prev_disabled bar \<longleftrightarrow> page st = 0) \<and>
      (next_disabled bar \<longleftrightarrow> (page st + 1) * 20 \<ge> total_st st)"
    by (auto simp: Articles_def limit_def split: if_splits)
  ultimately show ?thesis
    by (simp add: articles_init_def)
qed

theorem page_index_invariant_witness:
  "page (foldl articles_step articles_init [PrevClick, NextClick, NextClick, PrevClick]) = 1 \<and>
   page (foldl articles_step articles_init [NextClick, SearchChange ''ai'']) = 0 \<and>
   Articles (articles_init\<lparr>articles := [[(''id'', JNum 1)]], loading := False, total_st := 20\<rparr>) =
     ArticlesList [article_item [(''id'', JNum 1)]]
       \<lparr>prev_disabled = True, page_shown = 1, pages_shown = 1, next_disabled = True\<rparr>"
proof -
  let ?st = "articles_init\<lparr>articles := [[(''id'', JNum 1)]], loading := False, total_st := 20\<rparr>"
  let ?bar = "\<lparr>prev_disabled = True, page_shown = 1, pages_shown = 1, next_disabled = True\<rparr>"
  have v: "Articles ?st = ArticlesList [article_item [(''id'', JNum 1)]] ?bar"
    by (simp add: Articles_def articles_init_def limit_def page_count_def)
  have p: "page (foldl articles_step articles_init [PrevClick, NextClick, NextClick, PrevClick]) = 1"
    by (simp add: articles_init_def)
  have s: "page (foldl articles_step articles_init [NextClick, SearchChange ''ai'']) = 0"
    by (simp add: articles_init_def)
  from page_index_invariant
    [of "[PrevClick, NextClick, NextClick, PrevClick]" ?st "''ai''" "''all''"
      "[article_item [(''id'', JNum 1)]]" ?bar] v p s
  show ?thesis
    by simp
qed

text \<open>
  C7 as the specification states it, with the flag read as JavaScript reads a flag
  (\<open>truthy\<close>): an article whose \<open>exported\<close> field is the boolean \<open>true\<close> has its flag
  set and gets no badge.
\<close>

theorem exported_badge_counterexample:
  "truthy (js_get [(''id'', JNum 7), (''exported'', JBool True)] ''exported'') \<and>
   \<not> card_exported_badge (article_item [(''id'', JNum 7), (''exported'', JBool True)])"
  by (simp add: article_item_def js_get_def)

text \<open>
  C7, amended. The card of an article carries the "Exported" badge exactly when the
  article's \<open>exported\<close> field is the number 1, and no badge for any other value; so for
  every article whose \<open>exported\<close> field is the number 0 or the number 1, the badge is
  shown exactly when the flag is set.
\<close>

theorem exported_badge_iff_one:
  "(card_exported_badge (article_item article) \<longleftrightarrow> js_get article ''exported'' = JNum 1) \<and>
   (js_get article ''exported'' = JNum 0 \<or> js_get article ''exported'' = JNum 1 \<longrightarrow>
      (card_exported_badge (article_item article) \<longleftrightarrow> truthy (js_get article ''exported'')))"
  by (auto simp: article_item_def strict_eq_one)

theorem exported_badge_iff_one_witness:
  "card_exported_badge (article_item [(''id'', JNum 5), (''exported'', JNum 1)]) \<and>
   \<not> card_exported_badge (article_item [(''id'', JNum 6), (''exported'', JNum 0)])"
proof -
  have a: "js_get [(''id'', JNum 5), (''exported'', JNum 1)] ''exported'' = JNum 1"
    by (simp add: js_get_def)
  have b: "js_get [(''id'', JNum 6), (''exported'', JNum 0)] ''exported'' = JNum 0"
    by (simp add: js_get_def)
  from exported_badge_iff_one [of "[(''id'', JNum 5), (''exported'', JNum 1)]"]
       exported_badge_iff_one [of "[(''id'', JNum 6), (''exported'', JNum 0)]"] a b
  show ?thesis
    by simp
qed

subsection \<open>The source form\<close>

lemma js_get_update: "js_get (AList.update k v al) k' = (if k' = k then v else js_get al k')"
  by (simp add: js_get_def update_conv')

lemma form_keys_step: "form_keys st \<Longrightarrow> form_keys (sources_step st ev)"
proof (cases ev)
  case (SaveClick answer)
  assume "form_keys st"
  then show ?thesis
    unfolding SaveClick
    by (cases answer) (simp_all add: form_keys_def handleSubmit_def formData_empty_def)
qed (auto simp: form_keys_def formData_empty_def update_keys select_fire_def)

lemma form_keys_always: "form_keys (foldl sources_step sources_init evs)"
proof -
  have "form_keys st \<Longrightarrow> form_keys (foldl sources_step st evs)" for st
    by (induction evs arbitrary: st) (simp_all add: form_keys_step)
  moreover have "form_keys sources_init"
    by (simp add: form_keys_def sources_init_def formData_empty_def)
  ultimately show ?thesis .
qed

lemma formData_empty_ok: "stored_source_ok formData_empty"
  by (simp add: stored_source_ok_def formData_empty_def js_get_def source_type_ok_def)

lemma form_inv_init: "form_inv sources_init"
  using formData_empty_ok
  by (simp add: form_inv_def form_keys_def sources_init_def formData_empty_def)

lemma form_inv_step:
  assumes "form_inv st"
    and "\<And>source. ev = EditClick source \<Longrightarrow> stored_source_ok source"
  shows "form_inv (sources_step st ev)"
proof -
  have keys: "form_keys (sources_step st ev)"
    using assms(1) by (simp add: form_inv_def form_keys_step)
  have "stored_source_ok (formData (sources_step st ev))"
  proof (cases ev)
    case AddClick
    then show ?thesis
      by (simp add: formData_empty_ok)
  next
    case (EditClick source)
    with assms(2) [of source] show ?thesis
      by (simp add: stored_source_ok_def js_get_def)
  next
    case (NameChange v)
    with assms(1) show ?thesis
      by (simp add: form_inv_def stored_source_ok_def js_get_update)
  next
    case (TypeChange val)
    with assms(1) show ?thesis
      by (auto simp: form_inv_def stored_source_ok_def js_get_update select_fire_def
          source_type_items_def source_type_ok_def)
  next
    case (UrlChange v)
    with assms(1) show ?thesis
      by (simp add: form_inv_def stored_source_ok_def js_get_update)
  next
    case (EnabledChange checked)
    with assms(1) show ?thesis
      by (simp add: form_inv_def stored_source_ok_def js_get_update)
  next
    case CancelClick
    with assms(1) show ?thesis
      by (simp add: form_inv_def)
  next
    case (SaveClick answer)
    with assms(1) formData_empty_ok show ?thesis
      by (cases answer) (simp_all add: form_inv_def handleSubmit_def)
  qed
  with keys show ?thesis
    by (simp add: form_inv_def)
qed

lemma form_inv_foldl:
  "form_inv st \<Longrightarrow> list_all stored_source_ok (edited evs)
     \<Longrightarrow> form_inv (foldl sources_step st evs)"
proof (induction evs arbitrary: st)
  case Nil
  then show ?case by simp
next
  case (Cons ev evs)
  have "form_inv (sources_step st ev)"
    using Cons.prems by (intro form_inv_step) auto
  moreover have "list_all stored_source_ok (edited evs)"
    using Cons.prems(2) by (cases ev) simp_all
  ultimately show ?case
    using Cons.IH by simp
qed

lemma form_inv_shape: "form_inv st \<Longrightarrow> full_source_shape (body (handleSubmit_request st))"
  by (auto simp: form_inv_def form_keys_def stored_source_ok_def full_source_shape_def
      handleSubmit_request_def split: option.splits)

text \<open>
  C2 as the specification states it. The edit button copies the fields of the stored
  source into the form (lines 575-584) and the save button sends the form as it is
  (line 457). A stored source whose type is outside the closed set (the page draws such
  a source with the default icon, lines 511-512), opened and saved, is sent to
  \<^verbatim>\<open>PUT /sources/{id}\<close> with that type; a stored source that lacks a field is sent
  without it.
\<close>

theorem handleSubmit_stored_type_counterexample:
  "handleSubmit_request (foldl sources_step sources_init
      [EditClick [(''id'', JNum 9), (''name'', JStr ''Feed''), (''type'', JStr ''atom''),
                  (''url'', JStr ''https://example.org/feed''), (''enabled'', JBool True)]]) =
     \<lparr>verb = PUT, path = ''/sources/9'', query = [],
      body = JObj [(''name'', JStr ''Feed''), (''type'', JStr ''atom''),
                   (''url'', JStr ''https://example.org/feed''), (''enabled'', JBool True)]\<rparr> \<and>
   \<not> full_source_shape (body (handleSubmit_request (foldl sources_step sources_init
      [EditClick [(''id'', JNum 9), (''name'', JStr ''Feed''), (''type'', JStr ''atom''),
                  (''url'', JStr ''https://example.org/feed''), (''enabled'', JBool True)]]))) \<and>
   handleSubmit_request (foldl sources_step sources_init
      [EditClick [(''id'', JNum 4), (''name'', JStr ''HN''), (''type'', JStr ''rss''),
                  (''enabled'', JBool True)]]) =
     \<lparr>verb = PUT, path = ''/sources/4'', query = [],
      body = JObj [(''name'', JStr ''HN''), (''type'', JStr ''rss''),
                   (''url'', Undefined), (''enabled'', JBool True)]\<rparr> \<and>
   \<not> full_source_shape (body (handleSubmit_request (foldl sources_step sources_init
      [EditClick [(''id'', JNum 4), (''name'', JStr ''HN''), (''type'', JStr ''rss''),
                  (''enabled'', JBool True)]])))"
  by (simp add: handleSubmit_request_def sources_init_def full_source_shape_def js_get_def
      source_type_ok_def show_int_def show_nat.simps digit_char_def)

text \<open>
  C2, amended. Every request the save button of the source dialog issues, and so every
  source-update request the client issues to \<^verbatim>\<open>PUT /sources/{id}\<close>, carries the full
  source shape \<open>{name, type, url, enabled}\<close> with \<open>type\<close> in \<open>{rss, reddit, scraper}\<close>,
  provided the stored sources that were opened for editing have these four fields
  themselves, with such a type. The request is a \<^verbatim>\<open>PUT\<close> to the id of the source being
  edited exactly when a source is being edited.
\<close>

theorem handleSubmit_full_source_shape:
  assumes "list_all stored_source_ok (edited evs)"
  shows "full_source_shape (body (handleSubmit_request (foldl sources_step sources_init evs))) \<and>
    (editingSource (foldl sources_step sources_init evs) \<noteq> None \<longleftrightarrow>
       verb (handleSubmit_request (foldl sources_step sources_init evs)) = PUT) \<and>
    (editingSource (foldl sources_step sources_init evs) = Some source \<longrightarrow>
       path (handleSubmit_request (foldl sources_step sources_init evs))
         = ''/sources/'' @ js_to_string (js_get source ''id''))"
proof -
  have "form_inv (foldl sources_step sources_init evs)"
    using form_inv_init assms by (rule form_inv_foldl)
  then have "full_source_shape (body (handleSubmit_request (foldl sources_step sources_init evs)))"
    by (rule form_inv_shape)
  then show ?thesis
    by (simp add: handleSubmit_request_def split: option.splits)
qed

theorem handleSubmit_full_source_shape_witness:
  "handleSubmit_request (foldl sources_step sources_init
      [EditClick [(''id'', JNum 3), (''name'', JStr ''HN''), (''type'', JStr ''rss''),
                  (''url'', JStr ''u''), (''enabled'', JBool True)],
       TypeChange ''reddit'', EnabledChange False]) =
     \<lparr>verb = PUT, path = ''/sources/3'', query = [],
      body = JObj [(''name'', JStr ''HN''), (''type'', JStr ''reddit''), (''url'', JStr ''u''),
                   (''enabled'', JBool False)]\<rparr> \<and>
   full_source_shape (JObj [(''name'', JStr ''HN''), (''type'', JStr ''reddit''),
                   (''url'', JStr ''u''), (''enabled'', JBool False)])"
proof -
  let ?src = "[(''id'', JNum 3), (''name'', JStr ''HN''), (''type'', JStr ''rss''),
                  (''url'', JStr ''u''), (''enabled'', JBool True)]"
  let ?evs = "[EditClick ?src, TypeChange ''reddit'', EnabledChange False]"
  have e: "list_all stored_source_ok (edited ?evs)"
    by (simp add: stored_source_ok_def js_get_def source_type_ok_def)
  have r: "handleSubmit_request (foldl sources_step sources_init ?evs) =
     \<lparr>verb = PUT, path = ''/sources/3'', query = [],
      body = JObj [(''name'', JStr ''HN''), (''type'', JStr ''reddit''), (''url'', JStr ''u''),
                   (''enabled'', JBool False)]\<rparr>"
    by (simp add: handleSubmit_request_def sources_init_def select_fire_def
        source_type_items_def js_get_def show_int_def show_nat.simps digit_char_def)
  from handleSubmit_full_source_shape [OF e, of ?src] r show ?thesis
    by simp
qed

subsection \<open>Summaries\<close>

lemma generateSummary_category:
  "body (generateSummary_request st) =
     JObj [(''output_format'', JStr (outputFormat st)),
           (''category'', if selectedCategory st = [] then Null else JStr (selectedCategory st)),
           (''limit'', JNum 20)]"
  by (simp add: generateSummary_request_def js_or_def)

text \<open>
  C3. A summary generated with no category restriction should post \<open>category = null\<close>.
  Before the selector is touched it does; after an explicit choice of the "All
  Categories" item, whose value is \<^verbatim>\<open>"all"\<close>, the request carries the string
  \<^verbatim>\<open>"all"\<close> as a category name. The same choice in the article list is mapped to the
  empty filter and sends no category.
\<close>

theorem generateSummary_all_categories_sends_all:
  "body (generateSummary_request summaries_init) =
     JObj [(''output_format'', JStr ''markdown''), (''category'', Null), (''limit'', JNum 20)] \<and>
   body (generateSummary_request (foldl summaries_step summaries_init [SelectCategory ''all''])) =
     JObj [(''output_format'', JStr ''markdown''), (''category'', JStr ''all''),
           (''limit'', JNum 20)] \<and>
   map_of (query (fetchArticles_request
       (foldl articles_step articles_init [CategoryChange ''all'']))) ''category'' = None"
  by (simp add: generateSummary_category summaries_init_def select_fire_def
      fetchArticles_request_def fetchArticles_params_def articles_init_def)

subsection \<open>Exports\<close>





subsection \<open>The dashboard\<close>









subsection \<open>Ingestion\<close>






lemma ingest_store_ok:
  assumes "store_ok b"
  shows "store_ok (snd (ingest item source_id now b))"
proof (cases "find (\<lambda>a. url a = item_url item) (rows b)")
  case (Some a)
  with assms show ?thesis by (simp add: ingest_def)
next
  case None
  then have fresh_url: "item_url item \<notin> url ` set (rows b)"
    by (auto simp: find_None_iff)
  have fresh_id: "next_id b \<notin> article_id ` set (rows b)"
    using assms by (auto simp: store_ok_def list_all_iff)
  have "list_all (\<lambda>a. article_id a < next_id b + 1) (rows b)"
    using assms by (auto simp: store_ok_def list_all_iff)
  with assms None fresh_url fresh_id show ?thesis
    by (simp add: ingest_def store_ok_def)
qed







subsection \<open>Export bookkeeping\<close>






lemma export_rows:
  "rows (snd (export write_file render now ty unexported_only mark_exported n b)) = rows b \<or>
   rows (snd (export write_file render now ty unexported_only mark_exported n b)) =
     mark_exported_rows (map article_id (select_articles unexported_only n (rows b))) (rows b)"
  by (simp add: export_def Let_def)




lemma store_ok_cong:
  assumes "map url (rows b') = map url (rows b)"
    and "map article_id (rows b') = map article_id (rows b)"
    and "next_id b' = next_id b"
    and "store_ok b"
  shows "store_ok b'"
proof -
  have ids: "\<And>xs n. list_all (\<lambda>a. article_id a < n) xs \<longleftrightarrow> list_all (\<lambda>i. i < n) (map article_id xs)"
    by (simp add: list_all_iff)
  from assms(4) show ?thesis
    unfolding store_ok_def ids assms(1-3) .
qed

lemma categorize_keys:
  "map url (rows (categorize classify b)) = map url (rows b)"
  "map article_id (rows (categorize classify b)) = map article_id (rows b)"
  "next_id (categorize classify b) = next_id b"
  by (simp_all add: categorize_def comp_def if_distrib [of url] if_distrib [of article_id]
      cong: if_cong)

lemma mark_exported_rows_keys:
  "map url (mark_exported_rows ids as) = map url as"
  "map article_id (mark_exported_rows ids as) = map article_id as"
  by (simp_all add: mark_exported_rows_def comp_def if_distrib [of url]
      if_distrib [of article_id] cong: if_cong)

lemma export_next_id:
  "next_id (snd (export write_file render now ty unexported_only mark_exported n b)) = next_id b"
  by (simp add: export_def Let_def)

lemma backend_step_store_ok:
  assumes "store_ok b"
  shows "store_ok (backend_step b op)"
proof (cases op)
  case (OpIngest item source_id now)
  with assms show ?thesis
    by (simp add: ingest_store_ok)
next
  case (OpCategorize classify)
  from categorize_keys [of classify b] assms show ?thesis
    unfolding OpCategorize backend_step.simps by (rule store_ok_cong)
next
  case (OpExport write_file render now ty unexported_only mark_exported n)
  let ?b' = "snd (export write_file render now ty unexported_only mark_exported n b)"
  have "map url (rows ?b') = map url (rows b)"
    and "map article_id (rows ?b') = map article_id (rows b)"
    using export_rows [of write_file render now ty unexported_only mark_exported n b]
    by (auto simp: mark_exported_rows_keys)
  then show ?thesis
    unfolding OpExport backend_step.simps using export_next_id assms by (rule store_ok_cong)
qed



end
